theory Spec2Isabelle
  imports Main
begin

section \<open>The bounded tool-calling loop of \<open>backend/ai_generator.py\<close>\<close>

text \<open>
  A shallow embedding of \<open>AIGenerator\<close>. The two collaborators of the class, the LLM
  client (\<open>self.client.messages.create\<close>) and the tool manager
  (\<open>tool_manager.execute_tool\<close>), are parameters: state transformers that either raise
  (\<open>Inl\<close>) or return (\<open>Inr\<close>). Every call made to either of them is appended,
  with its arguments and its outcome, to a call log carried in the state, so that the
  number, the order and the arguments of the calls can be stated.
\<close>

subsection \<open>Data\<close>

text \<open>The keyword arguments of a tool call (\<open>block.input\<close>, a dict).\<close>

type_synonym tool_input = "(string \<times> string) list"

text \<open>
  A content block of a completion. \<open>TextBlock\<close> is a block that has a \<open>text\<close>
  attribute, \<open>ToolUseBlock\<close> a block whose \<open>type\<close> is \<open>"tool_use"\<close> (with its
  \<open>id\<close>, \<open>name\<close> and \<open>input\<close>), and \<open>OtherBlock\<close> any block that has neither a
  \<open>text\<close> attribute nor the type \<open>"tool_use"\<close>. (The blocks of the tests, and of
  the client library, are of one kind only.)
\<close>

datatype block =
    TextBlock string
  | ToolUseBlock string string tool_input
  | OtherBlock

record response =
  stop_reason :: string
  content :: "block list"

text \<open>The dict \<open>{"type": "tool_result", "tool_use_id": ..., "content": ...}\<close>.\<close>

record tool_result =
  tr_type :: string
  tool_use_id :: string
  tr_content :: string

text \<open>
  The \<open>"content"\<close> of a message: the query string, the content blocks of a completion, or
  the list of tool results of a round.
\<close>

datatype message_content =
    Text string
  | Blocks "block list"
  | ToolResults "tool_result list"

record message =
  role :: string
  msg_content :: message_content

text \<open>A tool definition, passed through to the LLM untouched.\<close>

record tool_definition =
  td_name :: string
  td_description :: string
  td_input_schema :: string

text \<open>\<open>self.base_params\<close>, and \<open>api_params\<close>, which extends it. The keys \<open>"tools"\<close> and
  \<open>"tool_choice"\<close> are absent (\<open>None\<close>) unless tools were given.\<close>

record base_params =
  model :: string
  temperature :: int
  max_tokens :: int

record api_params = base_params +
  messages :: "message list"
  system :: string
  tools :: "tool_definition list option"
  tool_choice :: "(string \<times> string) list option"

text \<open>An exception raised by a collaborator.\<close>

datatype exn = Exn string

text \<open>
  The call log: each call of a collaborator with its arguments, as they are when the call
  is made, and its outcome.
\<close>

datatype event =
    Create api_params "exn + response"
  | ExecuteTool string tool_input "exn + string"

record ('l, 't) state =
  llm_state :: 'l
  tool_state :: 't
  calls :: "event list"

type_synonym 'l client = "api_params \<Rightarrow> 'l \<Rightarrow> (exn + response) \<times> 'l"

type_synonym 't tool_manager = "string \<Rightarrow> tool_input \<Rightarrow> 't \<Rightarrow> (exn + string) \<times> 't"

text \<open>The object \<open>self\<close> (the API key is used only to build the client).\<close>

record 'l AIGenerator =
  client :: "'l client"
  self_model :: string
  self_base_params :: base_params

subsection \<open>Constants\<close>

definition MAX_TOOL_ROUNDS :: nat where
  "MAX_TOOL_ROUNDS = 2"

text \<open>The system prompt; the em dash of the source is written as its three UTF-8 bytes.\<close>

definition SYSTEM_PROMPT :: string where
  \<open>SYSTEM_PROMPT =
     '' You are an AI assistant specialized in course materials and educational content with access to two tools:'' @ [CHR 0x0A] @
     [CHR 0x0A] @
     ''1. **search_course_content** '' @ [CHR 0xE2, CHR 0x80, CHR 0x94] @ '' Search within course lesson text for specific topics, concepts, or details.'' @ [CHR 0x0A] @
     ''2. **get_course_outline** '' @ [CHR 0xE2, CHR 0x80, CHR 0x94] @ '' Retrieve a course's title, link, and full lesson list. Use this when asked about what a course covers, its outline, structure, overview, or lesson list.'' @ [CHR 0x0A] @
     [CHR 0x0A] @
     ''Tool Usage:'' @ [CHR 0x0A] @
     ''- Use `get_course_outline` for questions about course structure, outlines, overviews, or "what lessons are in" a course'' @ [CHR 0x0A] @
     ''- Use `search_course_content` for questions about specific topics, concepts, or details within course content'' @ [CHR 0x0A] @
     ''- **Up to two tool calls per query** '' @ [CHR 0xE2, CHR 0x80, CHR 0x94] @ '' you may call one tool, review the results, then call a second tool if needed'' @ [CHR 0x0A] @
     ''- Example workflow: use `get_course_outline` to find the course structure, then `search_course_content` to look up details from a specific lesson'' @ [CHR 0x0A] @
     ''- If a tool yields no results, state this clearly without offering alternatives'' @ [CHR 0x0A] @
     [CHR 0x0A] @
     ''Response Protocol:'' @ [CHR 0x0A] @
     ''- **General knowledge questions**: Answer using existing knowledge without searching'' @ [CHR 0x0A] @
     ''- **Course outline/overview questions**: Use `get_course_outline`, then present the course title, course link, and complete lesson list (number + title for each)'' @ [CHR 0x0A] @
     ''- **Course content questions**: Use `search_course_content`, then synthesize results into an accurate response'' @ [CHR 0x0A] @
     ''- **Multi-step questions**: If a question requires information from multiple sources (e.g., course structure AND specific content), use tools sequentially to gather all needed information before responding'' @ [CHR 0x0A] @
     ''- **No meta-commentary**:'' @ [CHR 0x0A] @
     '' - Provide direct answers only '' @ [CHR 0xE2, CHR 0x80, CHR 0x94] @ '' no reasoning process, search explanations, or question-type analysis'' @ [CHR 0x0A] @
     '' - Do not mention "based on the search results"'' @ [CHR 0x0A] @
     [CHR 0x0A] @
     ''All responses must be:'' @ [CHR 0x0A] @
     ''1. **Brief, Concise and focused** - Get to the point quickly'' @ [CHR 0x0A] @
     ''2. **Educational** - Maintain instructional value'' @ [CHR 0x0A] @
     ''3. **Clear** - Use accessible language'' @ [CHR 0x0A] @
     ''4. **Example-supported** - Include relevant examples when they aid understanding'' @ [CHR 0x0A] @
     ''Provide only the direct answer to what was asked.'' @ [CHR 0x0A]\<close>

text \<open>The answer returned when the final completion has no text block.\<close>

definition fallback_message :: string where
  \<open>fallback_message =
     ''I wasn't able to complete my analysis. Please try rephrasing your question.''\<close>

subsection \<open>Operations\<close>

text \<open>\<open>AIGenerator.__init__\<close>, with the client already built.\<close>

definition AIGenerator_init :: "'l client \<Rightarrow> string \<Rightarrow> 'l AIGenerator" where
  "AIGenerator_init c m =
     \<lparr>client = c, self_model = m,
      self_base_params = \<lparr>model = m, temperature = 0, max_tokens = 800\<rparr>\<rparr>"

text \<open>\<open>self.client.messages.create(**api_params)\<close>: the call and its outcome are logged.\<close>

definition create :: "'l AIGenerator \<Rightarrow> api_params \<Rightarrow> ('l, 't) state
    \<Rightarrow> (exn + response) \<times> ('l, 't) state" where
  "create self params s =
     (case client self params (llm_state s) of
        (r, l') \<Rightarrow> (r, s\<lparr>llm_state := l', calls := calls s @ [Create params r]\<rparr>))"

text \<open>\<open>tool_manager.execute_tool(block.name, **block.input)\<close>, logged in the same way.\<close>

definition call_execute_tool :: "'t tool_manager \<Rightarrow> string \<Rightarrow> tool_input \<Rightarrow> ('l, 't) state
    \<Rightarrow> (exn + string) \<times> ('l, 't) state" where
  "call_execute_tool tool_manager nm inp s =
     (case tool_manager nm inp (tool_state s) of
        (r, t') \<Rightarrow> (r, s\<lparr>tool_state := t', calls := calls s @ [ExecuteTool nm inp r]\<rparr>))"

text \<open>
  The loop of \<open>_execute_tool_calls\<close> over \<open>response.content\<close>, with the list
  \<open>tool_results\<close> built so far. An exception of the tool manager ends it.
\<close>

fun execute_tool_calls_loop :: "'t tool_manager \<Rightarrow> block list \<Rightarrow> tool_result list
    \<Rightarrow> ('l, 't) state \<Rightarrow> (exn + tool_result list) \<times> ('l, 't) state" where
  "execute_tool_calls_loop tool_manager [] tool_results s = (Inr tool_results, s)"
| "execute_tool_calls_loop tool_manager (ToolUseBlock bid nm inp # rest) tool_results s =
     (case call_execute_tool tool_manager nm inp s of
        (Inl e, s') \<Rightarrow> (Inl e, s')
      | (Inr result, s') \<Rightarrow>
          execute_tool_calls_loop tool_manager rest
            (tool_results @
               [\<lparr>tr_type = ''tool_result'', tool_use_id = bid, tr_content = result\<rparr>]) s')"
| "execute_tool_calls_loop tool_manager (TextBlock t # rest) tool_results s =
     execute_tool_calls_loop tool_manager rest tool_results s"
| "execute_tool_calls_loop tool_manager (OtherBlock # rest) tool_results s =
     execute_tool_calls_loop tool_manager rest tool_results s"

definition execute_tool_calls :: "response \<Rightarrow> 't tool_manager \<Rightarrow> ('l, 't) state
    \<Rightarrow> (exn + tool_result list) \<times> ('l, 't) state" where
  "execute_tool_calls resp tool_manager s =
     execute_tool_calls_loop tool_manager (content resp) [] s"

text \<open>
  The tool-calling loop of \<open>generate_response\<close>, \<open>for round_num in range(MAX_TOOL_ROUNDS)\<close>,
  over the round numbers still to come. It returns the values of \<open>response\<close> and
  \<open>api_params\<close> at its exit. The list \<open>messages\<close> of the source and
  \<open>api_params["messages"]\<close> are one and the same list object, kept here in \<open>api_params\<close>.
\<close>

fun tool_loop :: "'l AIGenerator \<Rightarrow> 't tool_manager option \<Rightarrow> nat list \<Rightarrow> api_params
    \<Rightarrow> response \<Rightarrow> ('l, 't) state \<Rightarrow> (exn + response \<times> api_params) \<times> ('l, 't) state" where
  "tool_loop self tool_manager [] params resp s = (Inr (resp, params), s)"
| "tool_loop self tool_manager (round_num # rounds) params resp s =
     (if stop_reason resp \<noteq> ''tool_use'' then (Inr (resp, params), s)
      else case tool_manager of
        None \<Rightarrow> (Inr (resp, params), s)
      | Some tm \<Rightarrow>
          (case execute_tool_calls resp tm s of
             (Inl e, s1) \<Rightarrow> (Inl e, s1)
           | (Inr tool_results, s1) \<Rightarrow>
               if tool_results = [] then (Inr (resp, params), s1)
               else
                 let params' = params\<lparr>messages := messages params @
                       [\<lparr>role = ''assistant'', msg_content = Blocks (content resp)\<rparr>,
                        \<lparr>role = ''user'', msg_content = ToolResults tool_results\<rparr>]\<rparr>
                 in (case create self params' s1 of
                       (Inl e, s2) \<Rightarrow> (Inl e, s2)
                     | (Inr resp', s2) \<Rightarrow>
                         tool_loop self tool_manager rounds params' resp' s2)))"

text \<open>The extraction of the answer: the text of the first block that has one.\<close>

fun extract_text :: "block list \<Rightarrow> string" where
  "extract_text [] = fallback_message"
| "extract_text (TextBlock t # rest) = t"
| "extract_text (b # rest) = extract_text rest"

text \<open>
  \<open>generate_response\<close>, first part (the system content and \<open>api_params\<close> of the initial
  API call). \<open>conversation_history\<close> and \<open>tools\<close> are optional and are tested for
  truth: \<open>None\<close>, the empty string and the empty list are false.
\<close>

definition initial_api_params :: "'l AIGenerator \<Rightarrow> string \<Rightarrow> string option
    \<Rightarrow> tool_definition list option \<Rightarrow> api_params" where
  "initial_api_params self query conversation_history tools_arg =
     (let system_content =
            (case conversation_history of
               None \<Rightarrow> SYSTEM_PROMPT
             | Some h \<Rightarrow>
                 if h \<noteq> [] then
                   SYSTEM_PROMPT @ [CHR 0x0A, CHR 0x0A] @ ''Previous conversation:''
                     @ [CHR 0x0A] @ h
                 else SYSTEM_PROMPT);
          params =
            \<lparr>model = model (self_base_params self),
             temperature = temperature (self_base_params self),
             max_tokens = max_tokens (self_base_params self),
             messages = [\<lparr>role = ''user'', msg_content = Text query\<rparr>],
             system = system_content,
             tools = None, tool_choice = None\<rparr>
      in case tools_arg of
           None \<Rightarrow> params
         | Some ts \<Rightarrow>
             if ts \<noteq> [] then
               params\<lparr>tools := Some ts, tool_choice := Some [(''type'', ''auto'')]\<rparr>
             else params)"

text \<open>
  \<open>generate_response\<close>: the initial API call, the tool-calling loop and the extraction
  of the answer. An exception of a collaborator is not caught.
\<close>

definition generate_response :: "'l AIGenerator \<Rightarrow> string \<Rightarrow> string option
    \<Rightarrow> tool_definition list option \<Rightarrow> 't tool_manager option \<Rightarrow> ('l, 't) state
    \<Rightarrow> (exn + string) \<times> ('l, 't) state" where
  "generate_response self query conversation_history tools_arg tool_manager s =
     (let params = initial_api_params self query conversation_history tools_arg
      in case create self params s of
           (Inl e, s1) \<Rightarrow> (Inl e, s1)
         | (Inr resp, s1) \<Rightarrow>
             (case tool_loop self tool_manager [0..<MAX_TOOL_ROUNDS] params resp s1 of
                (Inl e, s2) \<Rightarrow> (Inl e, s2)
              | (Inr (resp', params'), s2) \<Rightarrow> (Inr (extract_text (content resp')), s2)))"

subsection \<open>The tool registry\<close>

text \<open>Modelled from the spec: \<open>ToolManager.execute_tool\<close> of \<open>search_tools.py\<close>, which is not
  among the sources (section 4.2: it "looks up the tool by name; if absent, returns (not
  raises) an error string of the form "Tool '<name>' not found" [...] Otherwise delegates to
  the tool's execute"). A registry maps a name to the \<open>execute\<close> of the tool registered
  under it.\<close>

type_synonym 't tool = "tool_input \<Rightarrow> 't \<Rightarrow> (exn + string) \<times> 't"

definition execute_tool :: "(string \<rightharpoonup> 't tool) \<Rightarrow> 't tool_manager" where
  "execute_tool registry nm inp t =
     (case registry nm of
        None \<Rightarrow> (Inr (''Tool '' @ [CHR 0x27] @ nm @ [CHR 0x27] @ '' not found''), t)
      | Some tool \<Rightarrow> tool inp t)"

subsection \<open>Test doubles\<close>

text \<open>
  The doubles of \<open>tests/test_ai_generator.py\<close>: a client whose \<open>create\<close> has a
  \<open>side_effect\<close> list (each call takes the next outcome; the exhausted list raises
  \<open>StopIteration\<close>), and a tool manager whose \<open>execute_tool\<close> has a fixed
  \<open>return_value\<close>.
\<close>

definition scripted_client :: "((exn + response) list) client" where
  "scripted_client params l =
     (case l of [] \<Rightarrow> (Inl (Exn ''StopIteration''), []) | r # rest \<Rightarrow> (r, rest))"

definition const_tool_manager :: "string \<Rightarrow> 't tool_manager" where
  "const_tool_manager r nm inp t = (Inr r, t)"

text \<open>A tool whose \<open>execute\<close> returns a fixed string, to fill a registry.\<close>

definition const_tool :: "string \<Rightarrow> 't tool" where
  "const_tool r inp t = (Inr r, t)"


definition raising_tool_manager :: "string \<Rightarrow> 't tool_manager" where
  "raising_tool_manager e nm inp t = (Inl (Exn e), t)"

text \<open>
  \<open>make_text_response\<close> and \<open>make_tool_use_response\<close> of \<open>tests/helpers.py\<close>. The
  latter builds its block with \<open>tool_input or {"query": "test"}\<close>: an empty input is
  replaced by the default one.
\<close>

definition make_text_response :: "string \<Rightarrow> response" where
  "make_text_response t = \<lparr>stop_reason = ''end_turn'', content = [TextBlock t]\<rparr>"

definition make_tool_use_response :: "string \<Rightarrow> tool_input \<Rightarrow> string \<Rightarrow> response" where
  "make_tool_use_response tool_name tool_inp tool_id =
     \<lparr>stop_reason = ''tool_use'',
      content = [ToolUseBlock tool_id tool_name
                   (if tool_inp \<noteq> [] then tool_inp else [(''query'', ''test'')])]\<rparr>"

text \<open>A state with an empty call log.\<close>

definition fresh :: "'l \<Rightarrow> 't \<Rightarrow> ('l, 't) state" where
  "fresh l t = \<lparr>llm_state = l, tool_state = t, calls = []\<rparr>"

subsection \<open>Reading the call log\<close>

fun is_create :: "event \<Rightarrow> bool" where
  "is_create (Create p r) = True"
| "is_create (ExecuteTool nm inp r) = False"

text \<open>The number of LLM requests issued.\<close>

definition num_requests :: "event list \<Rightarrow> nat" where
  "num_requests evs = length (filter is_create evs)"

text \<open>The parameters of the LLM requests, in the order they were issued.\<close>

fun requests :: "event list \<Rightarrow> api_params list" where
  "requests [] = []"
| "requests (Create p r # evs) = p # requests evs"
| "requests (ExecuteTool nm inp r # evs) = requests evs"


text \<open>The \<open>tool_use\<close> blocks of a completion, as (id, name, input), in order.\<close>

fun tool_uses :: "block list \<Rightarrow> (string \<times> string \<times> tool_input) list" where
  "tool_uses [] = []"
| "tool_uses (ToolUseBlock bid nm inp # rest) = (bid, nm, inp) # tool_uses rest"
| "tool_uses (b # rest) = tool_uses rest"

text \<open>The text blocks of a completion, in order.\<close>

fun texts :: "block list \<Rightarrow> string list" where
  "texts [] = []"
| "texts (TextBlock t # rest) = t # texts rest"
| "texts (b # rest) = texts rest"


subsection \<open>The shape of the call log\<close>

text \<open>
  The log entries of a round all of whose dispatches returned: one \<open>execute_tool\<close> call
  per \<open>tool_use\<close> block, in order, each returning the content of its tool result.
\<close>

definition dispatch_events :: "(string \<times> string \<times> tool_input) list \<Rightarrow> tool_result list
    \<Rightarrow> event list" where
  "dispatch_events us trs =
     map (\<lambda>((bid, nm, inp), tr). ExecuteTool nm inp (Inr (tr_content tr))) (zip us trs)"

fun is_returned :: "event \<Rightarrow> bool" where
  "is_returned (ExecuteTool nm inp (Inr r)) = True"
| "is_returned ev = False"

text \<open>The parameters of the follow-up request of a round with tool results \<open>trs\<close>.\<close>

definition next_params :: "api_params \<Rightarrow> response \<Rightarrow> tool_result list \<Rightarrow> api_params" where
  "next_params p resp trs =
     p\<lparr>messages := messages p @
        [\<lparr>role = ''assistant'', msg_content = Blocks (content resp)\<rparr>,
         \<lparr>role = ''user'', msg_content = ToolResults trs\<rparr>]\<rparr>"


text \<open>Everything of a request but its message sequence.\<close>

definition frame :: "api_params \<Rightarrow> api_params" where
  "frame p = p\<lparr>messages := []\<rparr>"

subsection \<open>The tool results that a dispatcher gives\<close>

text \<open>
  What the rounds of dispatch are to produce, read off the tool manager itself. For the
  \<open>tool_use\<close> blocks of one completion, in order: the manager is called with the name and
  the input of the block, from the tools' state left by the call before; the tool result
  of the block has the block's id and, as content, the string that call returned. (The
  results end at a call that raises.)
\<close>

fun dispatch_results :: "'t tool_manager \<Rightarrow> (string \<times> string \<times> tool_input) list \<Rightarrow> 't
    \<Rightarrow> tool_result list \<times> 't" where
  "dispatch_results tm [] u = ([], u)"
| "dispatch_results tm ((bid, nm, inp) # us) u =
     (case tm nm inp u of
        (Inl e, u1) \<Rightarrow> ([], u1)
      | (Inr x, u1) \<Rightarrow>
          (case dispatch_results tm us u1 of
             (trs, u2) \<Rightarrow>
               (\<lparr>tr_type = ''tool_result'', tool_use_id = bid, tr_content = x\<rparr> # trs, u2)))"



text \<open>
  \<open>loop_trace n p resp evs res\<close>: with \<open>n\<close> rounds left, parameters \<open>p\<close> and
  current completion \<open>resp\<close>, the loop may log \<open>evs\<close> and end with \<open>res\<close>. The loop
  either exits at once; or a dispatch raises; or the round's dispatches return and the
  follow-up request raises; or that request returns and the loop goes on with one round
  less.
\<close>

inductive loop_trace :: "nat \<Rightarrow> api_params \<Rightarrow> response \<Rightarrow> event list
    \<Rightarrow> (exn + response \<times> api_params) \<Rightarrow> bool" where
  exit: "loop_trace n p resp [] (Inr (resp, p))"
| tool_raises: "list_all is_returned ds \<Longrightarrow> length ds < length (tool_uses (content resp)) \<Longrightarrow>
     loop_trace (Suc n) p resp (ds @ [ExecuteTool nm inp (Inl e)]) (Inl e)"
| create_raises: "trs \<noteq> [] \<Longrightarrow> length trs = length (tool_uses (content resp)) \<Longrightarrow>
     loop_trace (Suc n) p resp
       (dispatch_events (tool_uses (content resp)) trs @ [Create (next_params p resp trs) (Inl e)])
       (Inl e)"
| round: "trs \<noteq> [] \<Longrightarrow> length trs = length (tool_uses (content resp)) \<Longrightarrow>
     map tool_use_id trs = map fst (tool_uses (content resp)) \<Longrightarrow>
     loop_trace n (next_params p resp trs) resp' evs res \<Longrightarrow>
     loop_trace (Suc n) p resp
       (dispatch_events (tool_uses (content resp)) trs
          @ Create (next_params p resp trs) (Inr resp') # evs) res"

section \<open>The call log of a run\<close>

subsection \<open>One call, one round of dispatch\<close>

lemma create_calls:
  "create self p s = (r, s') \<Longrightarrow>
     calls s' = calls s @ [Create p r] \<and> tool_state s' = tool_state s"
  by (auto simp: create_def split: prod.splits)

lemma call_execute_tool_calls:
  "call_execute_tool tm nm inp s = (r, s') \<Longrightarrow>
     calls s' = calls s @ [ExecuteTool nm inp r] \<and> llm_state s' = llm_state s"
  by (auto simp: call_execute_tool_def split: prod.splits)

lemma exec_loop_returns:
  "execute_tool_calls_loop tm bs acc s = (Inr trs, s') \<Longrightarrow>
     \<exists>new. trs = acc @ new \<and> length new = length (tool_uses bs)
       \<and> map tool_use_id new = map fst (tool_uses bs)
       \<and> (\<forall>tr\<in>set new. tr_type tr = ''tool_result'')
       \<and> calls s' = calls s @ dispatch_events (tool_uses bs) new
       \<and> llm_state s' = llm_state s"
proof (induction tm bs acc s arbitrary: trs s' rule: execute_tool_calls_loop.induct)
  case (1 tm acc s)
  then show ?case by (simp add: dispatch_events_def)
next
  case (2 tm bid nm inp rest acc s)
  obtain r s1 where c: "call_execute_tool tm nm inp s = (r, s1)" by fastforce
  with "2.prems" obtain result where r: "r = Inr result"
    by (cases r) auto
  let ?tr = "\<lparr>tr_type = ''tool_result'', tool_use_id = bid, tr_content = result\<rparr>"
  from "2.prems" c r have "execute_tool_calls_loop tm rest (acc @ [?tr]) s1 = (Inr trs, s')"
    by simp
  from "2.IH"[OF c[symmetric, unfolded r] refl this]
  obtain new where n: "trs = (acc @ [?tr]) @ new" "length new = length (tool_uses rest)"
    "map tool_use_id new = map fst (tool_uses rest)"
    "\<forall>tr\<in>set new. tr_type tr = ''tool_result''"
    "calls s' = calls s1 @ dispatch_events (tool_uses rest) new"
    "llm_state s' = llm_state s1" by blast
  from call_execute_tool_calls[OF c] r n show ?case
    by (intro exI[of _ "?tr # new"]) (simp add: dispatch_events_def)
next
  case (3 tm t rest acc s)
  then show ?case by simp
next
  case (4 tm rest acc s)
  then show ?case by simp
qed

lemma dispatch_events_returned: "list_all is_returned (dispatch_events us trs)"
  by (auto simp: dispatch_events_def list_all_iff dest!: set_zip_leftD split: prod.splits)

lemma exec_loop_raises:
  "execute_tool_calls_loop tm bs acc s = (Inl e, s') \<Longrightarrow>
     \<exists>ds nm inp. calls s' = calls s @ ds @ [ExecuteTool nm inp (Inl e)]
       \<and> list_all is_returned ds \<and> length ds < length (tool_uses bs)
       \<and> llm_state s' = llm_state s"
proof (induction tm bs acc s arbitrary: s' rule: execute_tool_calls_loop.induct)
  case (1 tm acc s)
  then show ?case by simp
next
  case (2 tm bid nm inp rest acc s)
  obtain r s1 where c: "call_execute_tool tm nm inp s = (r, s1)" by fastforce
  note cc = call_execute_tool_calls[OF c]
  show ?case
  proof (cases r)
    case (Inl e')
    with "2.prems" c have "e' = e" "s' = s1" by auto
    with cc Inl have "calls s' = calls s @ [] @ [ExecuteTool nm inp (Inl e)]
        \<and> list_all is_returned []
        \<and> length ([]::event list) < length (tool_uses (ToolUseBlock bid nm inp # rest))
        \<and> llm_state s' = llm_state s" by simp
    then show ?thesis by blast
  next
    case (Inr result)
    let ?tr = "\<lparr>tr_type = ''tool_result'', tool_use_id = bid, tr_content = result\<rparr>"
    from "2.prems" c Inr have "execute_tool_calls_loop tm rest (acc @ [?tr]) s1 = (Inl e, s')"
      by simp
    from "2.IH"[OF c[symmetric, unfolded Inr] refl this]
    obtain ds nm' inp' where d: "calls s' = calls s1 @ ds @ [ExecuteTool nm' inp' (Inl e)]"
      "list_all is_returned ds" "length ds < length (tool_uses rest)"
      "llm_state s' = llm_state s1" by blast
    with cc Inr have "calls s' = calls s @ (ExecuteTool nm inp (Inr result) # ds)
          @ [ExecuteTool nm' inp' (Inl e)]
        \<and> list_all is_returned (ExecuteTool nm inp (Inr result) # ds)
        \<and> length (ExecuteTool nm inp (Inr result) # ds)
            < length (tool_uses (ToolUseBlock bid nm inp # rest))
        \<and> llm_state s' = llm_state s" by simp
    then show ?thesis by blast
  qed
next
  case (3 tm t rest acc s)
  then show ?case by simp
next
  case (4 tm rest acc s)
  then show ?case by simp
qed

subsection \<open>The log of the loop\<close>

lemma tool_loop_trace:
  "tool_loop self tm rounds p resp s = (res, s') \<Longrightarrow>
     \<exists>evs. calls s' = calls s @ evs \<and> loop_trace (length rounds) p resp evs res"
proof (induction rounds arbitrary: p resp s)
  case Nil
  then show ?case by (auto intro: loop_trace.exit)
next
  case (Cons k ks)
  show ?case
  proof (cases "stop_reason resp \<noteq> ''tool_use'' \<or> tm = None")
    case True
    with Cons.prems have "res = Inr (resp, p)" "s' = s" by (auto split: option.splits)
    then show ?thesis by (auto intro: loop_trace.exit)
  next
    case False
    then obtain d where tm: "tm = Some d" and sr: "stop_reason resp = ''tool_use''" by auto
    obtain x s1 where ex: "execute_tool_calls resp d s = (x, s1)" by fastforce
    show ?thesis
    proof (cases x)
      case (Inl e)
      with Cons.prems tm sr ex have r: "res = Inl e" "s' = s1" by auto
      from ex Inl exec_loop_raises[of d "content resp" "[]" s e s1]
      obtain ds nm inp where "calls s1 = calls s @ ds @ [ExecuteTool nm inp (Inl e)]"
        "list_all is_returned ds" "length ds < length (tool_uses (content resp))"
        by (auto simp: execute_tool_calls_def)
      with r show ?thesis by (auto intro: loop_trace.tool_raises)
    next
      case (Inr trs)
      from ex Inr exec_loop_returns[of d "content resp" "[]" s trs s1]
      have t: "length trs = length (tool_uses (content resp))"
        "map tool_use_id trs = map fst (tool_uses (content resp))"
        "calls s1 = calls s @ dispatch_events (tool_uses (content resp)) trs"
        by (auto simp: execute_tool_calls_def)
      show ?thesis
      proof (cases "trs = []")
        case True
        with Cons.prems tm sr ex Inr have "res = Inr (resp, p)" "s' = s1" by auto
        with t True show ?thesis by (auto simp: dispatch_events_def intro: loop_trace.exit)
      next
        case False
        obtain y s2 where cr: "create self (next_params p resp trs) s1 = (y, s2)" by fastforce
        note cc = create_calls[OF cr]
        show ?thesis
        proof (cases y)
          case (Inl e)
          with Cons.prems tm sr ex Inr False cr have "res = Inl e" "s' = s2"
            by (auto simp: next_params_def Let_def)
          with cc t Inl False show ?thesis by (auto intro: loop_trace.create_raises)
        next
          case r: (Inr resp')
          with Cons.prems tm sr ex Inr False cr
          have "tool_loop self tm ks (next_params p resp trs) resp' s2 = (res, s')"
            by (auto simp: next_params_def Let_def)
          from Cons.IH[OF this] obtain evs where
            e: "calls s' = calls s2 @ evs" "loop_trace (length ks) (next_params p resp trs) resp' evs res"
            by blast
          from loop_trace.round[OF False t(1) t(2) e(2)] e(1) cc t(3) r show ?thesis by auto
        qed
      qed
    qed
  qed
qed

subsection \<open>Counting in the log\<close>

lemma num_requests_simps [simp]:
  "num_requests [] = 0"
  "num_requests (Create p r # evs) = Suc (num_requests evs)"
  "num_requests (ExecuteTool nm inp x # evs) = num_requests evs"
  "num_requests (xs @ ys) = num_requests xs + num_requests ys"
  by (simp_all add: num_requests_def)

lemma returned_not_create: "list_all is_returned ds \<Longrightarrow> list_all (\<lambda>ev. \<not> is_create ev) ds"
  by (induction ds) (auto elim: is_returned.elims)


lemma requests_dispatches: "list_all (\<lambda>ev. \<not> is_create ev) ds \<Longrightarrow> requests (ds @ evs) = requests evs"
  by (induction ds) (auto elim: is_create.elims)



lemma dispatch_events_Nil [simp]: "dispatch_events us trs = [] \<longleftrightarrow> us = [] \<or> trs = []"
  by (cases us; cases trs) (auto simp: dispatch_events_def)




lemma loop_trace_final:
  "loop_trace n p resp evs (Inr (resp', p')) \<Longrightarrow>
     (evs = [] \<and> resp' = resp \<and> p' = p) \<or> (evs \<noteq> [] \<and> last evs = Create p' (Inr resp'))"
  by (induction n p resp evs "Inr (resp', p') :: exn + response \<times> api_params"
        rule: loop_trace.induct) auto

lemma frame_next_params [simp]: "frame (next_params p resp trs) = frame p"
  by (simp add: frame_def next_params_def)

lemma loop_trace_frame:
  "loop_trace n p resp evs res \<Longrightarrow> \<forall>p'\<in>set (requests evs). frame p' = frame p"
  by (induction rule: loop_trace.induct)
     (auto simp: requests_dispatches returned_not_create dispatch_events_returned)

lemma returned_not_raised:
  "list_all is_returned ds \<Longrightarrow> ExecuteTool nm inp (Inl e) \<notin> set ds"
  by (induction ds) auto

lemma loop_trace_raised:
  "loop_trace n p resp evs res \<Longrightarrow> ExecuteTool nm inp (Inl e) \<in> set evs \<Longrightarrow>
     last evs = ExecuteTool nm inp (Inl e) \<and> res = Inl e"
proof (induction rule: loop_trace.induct)
  case (exit n p resp)
  then show ?case by simp
next
  case (tool_raises ds resp n p nm' inp' e')
  then show ?case by (auto dest: returned_not_raised)
next
  case (create_raises trs resp n p e')
  then show ?case using returned_not_raised[OF dispatch_events_returned] by auto
next
  case (round trs resp n p resp' evs res)
  from round.prems returned_not_raised[OF dispatch_events_returned]
  have "ExecuteTool nm inp (Inl e) \<in> set evs" by auto
  with round.IH show ?case by auto
qed

lemma loop_trace_degenerate:
  "loop_trace n p resp evs res \<Longrightarrow> tool_uses (content resp) = [] \<Longrightarrow>
     evs = [] \<and> res = Inr (resp, p)"
  by (induction rule: loop_trace.induct) auto

lemma loop_trace_degenerate_later:
  "loop_trace n p resp evs res \<Longrightarrow> Create p' (Inr r) \<in> set evs \<Longrightarrow>
     tool_uses (content r) = [] \<Longrightarrow> last evs = Create p' (Inr r) \<and> res = Inr (r, p')"
proof (induction rule: loop_trace.induct)
  case (exit n p resp)
  then show ?case by simp
next
  case (tool_raises ds resp n p nm inp e)
  then show ?case by (auto simp: list_all_iff)
next
  case (create_raises trs resp n p e)
  then show ?case using dispatch_events_returned[of "tool_uses (content resp)" trs]
    by (auto simp: list_all_iff)
next
  case (round trs resp n p resp' evs res)
  from round.prems(1) dispatch_events_returned[of "tool_uses (content resp)" trs]
  consider "p' = next_params p resp trs" "r = resp'" | "Create p' (Inr r) \<in> set evs"
    by (auto simp: list_all_iff)
  then show ?case
  proof cases
    case 1
    with loop_trace_degenerate[OF round.hyps(4)] round.prems(2) show ?thesis by simp
  next
    case 2
    with round.IH round.prems(2) show ?thesis by auto
  qed
qed

lemma generate_response_trace:
  assumes "generate_response self q h ts tm s = (res, s')"
  shows "(\<exists>e. res = Inl e \<and> calls s' = calls s @ [Create (initial_api_params self q h ts) (Inl e)])
    \<or> (\<exists>resp evs lres. calls s' = calls s @ Create (initial_api_params self q h ts) (Inr resp) # evs
          \<and> loop_trace MAX_TOOL_ROUNDS (initial_api_params self q h ts) resp evs lres
          \<and> res = (case lres of Inl e \<Rightarrow> Inl e
                    | Inr (resp', p') \<Rightarrow> Inr (extract_text (content resp'))))"
proof -
  let ?p = "initial_api_params self q h ts"
  obtain y s1 where cr: "create self ?p s = (y, s1)" by fastforce
  note cc = create_calls[OF cr]
  show ?thesis
  proof (cases y)
    case (Inl e)
    with assms cr cc show ?thesis by (auto simp: generate_response_def)
  next
    case (Inr resp)
    obtain lres s2 where tl: "tool_loop self tm [0..<MAX_TOOL_ROUNDS] ?p resp s1 = (lres, s2)"
      by fastforce
    from tool_loop_trace[OF tl] obtain evs where
      e: "calls s2 = calls s1 @ evs" "loop_trace MAX_TOOL_ROUNDS ?p resp evs lres"
      by auto
    from assms cr Inr tl have "s' = s2"
      "res = (case lres of Inl e \<Rightarrow> Inl e | Inr (resp', p') \<Rightarrow> Inr (extract_text (content resp')))"
      by (auto simp: generate_response_def split: sum.splits prod.splits)
    with e cc Inr show ?thesis by auto
  qed
qed

subsection \<open>Evaluating a run\<close>

lemma range_two: "[0..<2] = [0, Suc 0]"
  by (simp add: upt_rec)

lemmas run_simps = range_two generate_response_def initial_api_params_def create_def
  call_execute_tool_def execute_tool_calls_def scripted_client_def const_tool_manager_def
  AIGenerator_init_def fresh_def MAX_TOOL_ROUNDS_def make_text_response_def
  make_tool_use_response_def Let_def

subsection \<open>The extraction of the answer\<close>

lemma extract_text_first: "texts pre = [] \<Longrightarrow> extract_text (pre @ TextBlock tx # post) = tx"
  by (induction pre rule: texts.induct) auto

lemma extract_text_none: "texts bs = [] \<Longrightarrow> extract_text bs = fallback_message"
  by (induction bs rule: texts.induct) auto

lemma texts_split:
  "texts bs \<noteq> [] \<Longrightarrow> \<exists>pre tx post. bs = pre @ TextBlock tx # post \<and> texts pre = []"
proof (induction bs)
  case Nil
  then show ?case by simp
next
  case (Cons b bs)
  show ?case
  proof (cases "\<exists>t. b = TextBlock t")
    case True
    then obtain t where "b = TextBlock t" by blast
    then have "b # bs = [] @ TextBlock t # bs \<and> texts [] = []" by simp
    then show ?thesis by blast
  next
    case False
    with Cons.prems have "texts bs \<noteq> []" by (cases b) auto
    from Cons.IH[OF this] obtain pre tx post where
      "bs = pre @ TextBlock tx # post" "texts pre = []" by blast
    with False have "b # bs = (b # pre) @ TextBlock tx # post \<and> texts (b # pre) = []"
      by (cases b) auto
    then show ?thesis by blast
  qed
qed

lemma fallback_message_nonempty: "fallback_message \<noteq> []"
  by (simp add: fallback_message_def)

lemma generate_response_final:
  assumes "generate_response self q h ts tm (fresh l t) = (Inr answer, s')"
  shows "\<exists>p rf. last (calls s') = Create p (Inr rf) \<and> answer = extract_text (content rf)"
proof -
  let ?p = "initial_api_params self q h ts"
  from generate_response_trace[OF assms]
  obtain resp evs lres where t: "calls s' = Create ?p (Inr resp) # evs"
      "loop_trace MAX_TOOL_ROUNDS ?p resp evs lres"
      "Inr answer = (case lres of Inl e \<Rightarrow> Inl e
                | Inr (resp', p') \<Rightarrow> Inr (extract_text (content resp')))"
    by (auto simp: fresh_def)
  from t(3) obtain resp' p' where l: "lres = Inr (resp', p')"
      "answer = extract_text (content resp')"
    by (auto split: sum.splits)
  from loop_trace_final[OF t(2)[unfolded l(1)]] t(1) l(2) show ?thesis by auto
qed

subsection \<open>Exits of the loop\<close>

lemma exec_loop_no_tool_uses:
  "tool_uses bs = [] \<Longrightarrow> execute_tool_calls_loop tm bs acc s = (Inr acc, s)"
  by (induction bs rule: tool_uses.induct) auto

lemma tool_loop_no_manager: "tool_loop self None rounds p resp s = (Inr (resp, p), s)"
  by (cases rounds) auto

lemma tool_loop_degenerate:
  "tool_uses (content resp) = [] \<Longrightarrow> tool_loop self tm rounds p resp s = (Inr (resp, p), s)"
  by (cases rounds; cases tm) (auto simp: execute_tool_calls_def exec_loop_no_tool_uses)

subsection \<open>The parameters of the requests\<close>

lemma frame_fields:
  assumes "frame p = frame p'"
  shows "model p = model p'" and "temperature p = temperature p'"
    and "max_tokens p = max_tokens p'" and "system p = system p'"
    and "tools p = tools p'" and "tool_choice p = tool_choice p'"
proof -
  have "model (frame p) = model (frame p')" "temperature (frame p) = temperature (frame p')"
    "max_tokens (frame p) = max_tokens (frame p')" "system (frame p) = system (frame p')"
    "tools (frame p) = tools (frame p')" "tool_choice (frame p) = tool_choice (frame p')"
    using assms by simp_all
  then show "model p = model p'" and "temperature p = temperature p'"
    and "max_tokens p = max_tokens p'" and "system p = system p'"
    and "tools p = tools p'" and "tool_choice p = tool_choice p'"
    by (simp_all add: frame_def)
qed

lemma generate_response_frame:
  assumes "generate_response self q h ts tm (fresh l t) = (res, s')"
  shows "\<forall>p\<in>set (requests (calls s')). frame p = frame (initial_api_params self q h ts)"
proof -
  let ?p = "initial_api_params self q h ts"
  from generate_response_trace[OF assms]
  consider e where "calls s' = [Create ?p (Inl e)]"
    | resp evs lres where "calls s' = Create ?p (Inr resp) # evs"
        "loop_trace MAX_TOOL_ROUNDS ?p resp evs lres"
    by (auto simp: fresh_def)
  then show ?thesis
  proof cases
    case 1
    then show ?thesis by simp
  next
    case 2
    with loop_trace_frame[OF 2(2)] show ?thesis by simp
  qed
qed

lemma initial_api_params_fields:
  "model (initial_api_params (AIGenerator_init c m) q h ts) = m"
  "temperature (initial_api_params (AIGenerator_init c m) q h ts) = 0"
  "max_tokens (initial_api_params (AIGenerator_init c m) q h ts) = 800"
  "messages (initial_api_params self q h ts) = [\<lparr>role = ''user'', msg_content = Text q\<rparr>]"
  "defs \<noteq> [] \<Longrightarrow> tools (initial_api_params self q h (Some defs)) = Some defs"
  "defs \<noteq> [] \<Longrightarrow>
     tool_choice (initial_api_params self q h (Some defs)) = Some [(''type'', ''auto'')]"
  "tools (initial_api_params self q h None) = None"
  "tool_choice (initial_api_params self q h None) = None"
  "tools (initial_api_params self q h (Some [])) = None"
  "tool_choice (initial_api_params self q h (Some [])) = None"
  by (simp_all add: initial_api_params_def AIGenerator_init_def Let_def split: option.splits)

subsection \<open>One round\<close>

lemma exec_loop_result_of_call:
  "execute_tool_calls_loop tm bs acc s = (Inr trs, s1) \<Longrightarrow>
   (bid, nm, inp) \<in> set (tool_uses bs) \<Longrightarrow>
     \<exists>t r t'. tm nm inp t = (Inr r, t')
       \<and> \<lparr>tr_type = ''tool_result'', tool_use_id = bid, tr_content = r\<rparr> \<in> set trs"
proof (induction tm bs acc s arbitrary: trs s1 rule: execute_tool_calls_loop.induct)
  case (1 tm acc s)
  then show ?case by simp
next
  case (2 tm bid' nm' inp' rest acc s)
  obtain r s' where c: "call_execute_tool tm nm' inp' s = (r, s')" by fastforce
  with "2.prems"(1) obtain result where r: "r = Inr result" by (cases r) auto
  let ?tr = "\<lparr>tr_type = ''tool_result'', tool_use_id = bid', tr_content = result\<rparr>"
  from "2.prems"(1) c r
  have l: "execute_tool_calls_loop tm rest (acc @ [?tr]) s' = (Inr trs, s1)" by simp
  show ?case
  proof (cases "(bid, nm, inp) \<in> set (tool_uses rest)")
    case True
    from "2.IH"[OF c[symmetric, unfolded r] refl l True] show ?thesis .
  next
    case False
    with "2.prems"(2) have e: "bid = bid'" "nm = nm'" "inp = inp'" by auto
    from exec_loop_returns[OF l] have "?tr \<in> set trs" by auto
    moreover from c r have "\<exists>t'. tm nm' inp' (tool_state s) = (Inr result, t')"
      by (auto simp: call_execute_tool_def split: prod.splits)
    ultimately show ?thesis using e by blast
  qed
next
  case (3 tm t rest acc s)
  then show ?case by simp
next
  case (4 tm rest acc s)
  then show ?case by simp
qed

lemma tool_loop_round_request:
  assumes "stop_reason resp = ''tool_use''"
    and "execute_tool_calls resp tm s = (Inr trs, s1)" and "trs \<noteq> []"
  shows "\<exists>r rest. calls (snd (tool_loop self (Some tm) (k # ks) p resp s))
     = calls s1 @ Create (next_params p resp trs) r # rest"
proof -
  obtain y s2 where cr: "create self (next_params p resp trs) s1 = (y, s2)" by fastforce
  note cc = create_calls[OF cr]
  show ?thesis
  proof (cases y)
    case (Inl e)
    with assms cr have "tool_loop self (Some tm) (k # ks) p resp s = (Inl e, s2)"
      by (simp add: next_params_def)
    with cc show ?thesis by simp
  next
    case (Inr resp')
    obtain res s' where tl: "tool_loop self (Some tm) ks (next_params p resp trs) resp' s2 = (res, s')"
      by fastforce
    with assms cr Inr have "tool_loop self (Some tm) (k # ks) p resp s = (res, s')"
      by (simp add: next_params_def)
    with tool_loop_trace[OF tl] cc show ?thesis by auto
  qed
qed

subsection \<open>Runs against a scripted client\<close>




lemma dispatch_results_returned:
  assumes "\<forall>nm inp u. \<exists>x u'. tm nm inp u = (Inr x, u')"
  shows "length (fst (dispatch_results tm us u)) = length us
    \<and> map tool_use_id (fst (dispatch_results tm us u)) = map fst us
    \<and> (\<forall>tr\<in>set (fst (dispatch_results tm us u)). tr_type tr = ''tool_result'')"
proof (induction us arbitrary: u)
  case Nil
  then show ?case by simp
next
  case (Cons a us)
  obtain bid nm inp where a: "a = (bid, nm, inp)" by (cases a)
  from assms obtain x u1 where t: "tm nm inp u = (Inr x, u1)" by blast
  from Cons[of u1] a t show ?case by (simp add: case_prod_beta)
qed





section \<open>The claims\<close>





text \<open>
  Claim C3, amended. When \<open>generate_response\<close> returns an answer, the last call of the
  run is the request whose completion is the final one, and the answer is the string of
  the first text block of that completion, scanning its blocks in order, returned as it
  is (also when it is the empty string). If no block carries text the answer is the fixed
  fallback message, which is not empty. So the answer is empty only when the first text
  block of the final completion is itself empty.
\<close>

theorem generate_response_answer:
  assumes "generate_response self q h ts tm (fresh l t) = (Inr answer, s')"
  shows "\<exists>p rf. last (calls s') = Create p (Inr rf)
    \<and> (\<forall>pre tx post. content rf = pre @ TextBlock tx # post \<and> texts pre = []
          \<longrightarrow> answer = tx)
    \<and> (texts (content rf) = [] \<longrightarrow> answer = fallback_message)
    \<and> fallback_message \<noteq> []
    \<and> (answer = [] \<longrightarrow> (\<exists>pre post. content rf = pre @ TextBlock [] # post \<and> texts pre = []))"
proof -
  from generate_response_final[OF assms] obtain p rf where
    f: "last (calls s') = Create p (Inr rf)" "answer = extract_text (content rf)" by blast
  have a: "\<forall>pre tx post. content rf = pre @ TextBlock tx # post \<and> texts pre = []
          \<longrightarrow> answer = tx"
    using f(2) by (auto simp: extract_text_first)
  have b: "texts (content rf) = [] \<longrightarrow> answer = fallback_message"
    using f(2) by (simp add: extract_text_none)
  have c: "\<exists>pre post. content rf = pre @ TextBlock [] # post \<and> texts pre = []" if "answer = []"
  proof (cases "texts (content rf) = []")
    case True
    with b that fallback_message_nonempty show ?thesis by simp
  next
    case False
    from texts_split[OF this] obtain pre tx post where
      s: "content rf = pre @ TextBlock tx # post" "texts pre = []" by blast
    with a that have "tx = []" by auto
    with s show ?thesis by blast
  qed
  from f(1) a b c fallback_message_nonempty show ?thesis by blast
qed

theorem generate_response_answer_witness:
  "fst (generate_response (AIGenerator_init scripted_client ''claude-test'') ''q'' None None
          (Some (const_tool_manager ''r''))
          (fresh [Inr (make_tool_use_response ''search'' [(''query'', ''x'')] ''call_1''),
                  Inr (make_tool_use_response ''search'' [(''query'', ''x'')] ''call_2''),
                  Inr (make_tool_use_response ''search'' [(''query'', ''x'')] ''call_3'')] ()))
     = Inr fallback_message
   \<and> (\<exists>p. last (calls (snd (generate_response (AIGenerator_init scripted_client ''claude-test'')
          ''q'' None None (Some (const_tool_manager ''r''))
          (fresh [Inr (make_tool_use_response ''search'' [(''query'', ''x'')] ''call_1''),
                  Inr (make_tool_use_response ''search'' [(''query'', ''x'')] ''call_2''),
                  Inr (make_tool_use_response ''search'' [(''query'', ''x'')] ''call_3'')] ()))))
        = Create p (Inr (make_tool_use_response ''search'' [(''query'', ''x'')] ''call_3'')))"
proof -
  let ?G = "generate_response (AIGenerator_init scripted_client ''claude-test'') ''q'' None None
          (Some (const_tool_manager ''r''))
          (fresh [Inr (make_tool_use_response ''search'' [(''query'', ''x'')] ''call_1''),
                  Inr (make_tool_use_response ''search'' [(''query'', ''x'')] ''call_2''),
                  Inr (make_tool_use_response ''search'' [(''query'', ''x'')] ''call_3'')] ())"
  have h: "?G = (Inr fallback_message, snd ?G)"
    by (simp add: run_simps)
  from generate_response_answer[OF h] obtain p rf where
    "last (calls (snd ?G)) = Create p (Inr rf)" by blast
  moreover have "\<exists>p. last (calls (snd ?G)) = Create p (Inr (make_tool_use_response ''search'' [(''query'', ''x'')] ''call_3''))"
    by (simp add: run_simps)
  ultimately show ?thesis using h by (metis fst_conv)
qed

text \<open>
  Claim C3 as stated fails: a final completion whose first text block is the empty string
  (\<open>make_text_response("")\<close>) is answered with the empty string.
\<close>

theorem empty_text_block_counterexample:
  "fst (generate_response (AIGenerator_init scripted_client ''claude-test'') ''q'' None None None
          (fresh [Inr (make_text_response [])] ())) = Inr []"
  by (simp add: run_simps)



text \<open>
  Claim C5. A completion that signals a tool request but has no \<open>tool_use\<close> block ends
  the loop where it stands: the loop returns that completion with the parameters (and so
  the messages) and the state (and so the call log) unchanged. In a run of
  \<open>generate_response\<close>, the request that returned such a completion is the last call
  of the run, and the run does not raise: it returns the answer extracted from that
  completion's own content.
\<close>

theorem degenerate_tool_request_ends_loop:
  assumes "stop_reason resp = ''tool_use''" and "tool_uses (content resp) = []"
  shows "tool_loop self tm rounds p resp s = (Inr (resp, p), s)
    \<and> (generate_response self q h ts tm (fresh l t) = (res, s')
         \<longrightarrow> Create p' (Inr resp) \<in> set (calls s')
         \<longrightarrow> last (calls s') = Create p' (Inr resp)
             \<and> res = Inr (extract_text (content resp)))"
proof -
  have "last (calls s') = Create p' (Inr resp) \<and> res = Inr (extract_text (content resp))"
    if g: "generate_response self q h ts tm (fresh l t) = (res, s')"
      and m: "Create p' (Inr resp) \<in> set (calls s')"
  proof -
    let ?p = "initial_api_params self q h ts"
    from generate_response_trace[OF g] m
    obtain resp0 evs lres where t: "calls s' = Create ?p (Inr resp0) # evs"
      "loop_trace MAX_TOOL_ROUNDS ?p resp0 evs lres"
      "res = (case lres of Inl e \<Rightarrow> Inl e
                | Inr (resp', p') \<Rightarrow> Inr (extract_text (content resp')))"
      by (auto simp: fresh_def)
    from m t(1) consider "p' = ?p" "resp0 = resp" | "Create p' (Inr resp) \<in> set evs" by auto
    then show ?thesis
    proof cases
      case 1
      with loop_trace_degenerate[OF t(2)] assms(2) t(1,3) show ?thesis by simp
    next
      case 2
      from loop_trace_degenerate_later[OF t(2) 2 assms(2)] 2 t(1,3) show ?thesis by auto
    qed
  qed
  with tool_loop_degenerate[OF assms(2)] show ?thesis by blast
qed

theorem degenerate_tool_request_ends_loop_witness:
  "fst (generate_response (AIGenerator_init scripted_client ''claude-test'') ''q'' None None
          (Some (const_tool_manager ''r''))
          (fresh [Inr (make_text_response ''no tool after all'' \<lparr>stop_reason := ''tool_use''\<rparr>),
                  Inr (make_text_response ''never requested'')] ()))
     = Inr ''no tool after all''
   \<and> num_requests (calls (snd (generate_response (AIGenerator_init scripted_client ''claude-test'')
          ''q'' None None (Some (const_tool_manager ''r''))
          (fresh [Inr (make_text_response ''no tool after all'' \<lparr>stop_reason := ''tool_use''\<rparr>),
                  Inr (make_text_response ''never requested'')] ())))) = 1"
proof -
  let ?r = "make_text_response ''no tool after all'' \<lparr>stop_reason := ''tool_use''\<rparr>"
  let ?G = "generate_response (AIGenerator_init scripted_client ''claude-test'') ''q'' None None
          (Some (const_tool_manager ''r''))
          (fresh [Inr ?r, Inr (make_text_response ''never requested'')] ())"
  have a: "stop_reason ?r = ''tool_use''" and b: "tool_uses (content ?r) = []"
    by (simp_all add: make_text_response_def)
  have c: "Create (initial_api_params (AIGenerator_init scripted_client ''claude-test'') ''q''
      None None) (Inr ?r) \<in> set (calls (snd ?G))"
    by (simp add: run_simps)
  from degenerate_tool_request_ends_loop[OF a b,
      where self = "AIGenerator_init scripted_client ''claude-test''"
        and tm = "Some (const_tool_manager ''r'')" and q = "''q''" and h = None and ts = None
        and l = "[Inr ?r, Inr (make_text_response ''never requested'')]" and t = "()"
        and res = "fst ?G" and s' = "snd ?G"
        and p' = "initial_api_params (AIGenerator_init scripted_client ''claude-test'') ''q''
          None None"] c
  have "last (calls (snd ?G)) = Create (initial_api_params (AIGenerator_init scripted_client ''claude-test'') ''q''
      None None) (Inr ?r) \<and> fst ?G = Inr (extract_text (content ?r))"
    by simp
  then have "fst ?G = Inr ''no tool after all''" by (simp add: make_text_response_def)
  moreover have "num_requests (calls (snd ?G)) = 1" by (simp add: run_simps)
  ultimately show ?thesis by simp
qed

text \<open>
  Claim C6, amended. For every query invoked with no tool manager supplied, with or without
  tool definitions, \<open>generate_response\<close> issues exactly one LLM request, the initial
  one; if it returns a completion, the answer is extracted from that completion, whatever
  its stop reason: the first text block is returned verbatim.
\<close>

theorem generate_response_without_tool_manager:
  assumes "generate_response self q h ts None (fresh l t) = (res, s')"
  shows "\<exists>r. calls s' = [Create (initial_api_params self q h ts) r]
    \<and> num_requests (calls s') = 1
    \<and> (\<forall>resp. r = Inr resp \<longrightarrow> res = Inr (extract_text (content resp))
          \<and> (\<forall>pre tx post. content resp = pre @ TextBlock tx # post \<and> texts pre = []
                \<longrightarrow> res = Inr tx))"
proof -
  let ?p = "initial_api_params self q h ts"
  obtain y s1 where cr: "create self ?p (fresh l t) = (y, s1)" by fastforce
  from create_calls[OF cr] have c: "calls s1 = [Create ?p y]" by (simp add: fresh_def)
  have "res = Inr (extract_text (content resp)) \<and> s' = s1" if "y = Inr resp" for resp
    using assms cr that by (simp add: generate_response_def tool_loop_no_manager)
  moreover have "s' = s1" if "y = Inl e" for e
    using assms cr that by (simp add: generate_response_def)
  ultimately have "calls s' = [Create ?p y]
    \<and> (\<forall>resp. y = Inr resp \<longrightarrow> res = Inr (extract_text (content resp)))"
    using c by (cases y) auto
  then show ?thesis by (auto simp: extract_text_first)
qed

theorem generate_response_without_tool_manager_witness:
  "fst (generate_response (AIGenerator_init scripted_client ''claude-test'') ''q'' None
          (Some [\<lparr>td_name = ''t'', td_description = [], td_input_schema = []\<rparr>]) None
          (fresh [Inr \<lparr>stop_reason = ''tool_use'',
                       content = [TextBlock ''I want to search'',
                         ToolUseBlock ''call_1'' ''search_course_content''
                           [(''query'', ''test'')]]\<rparr>] ()))
     = Inr ''I want to search''"
proof -
  let ?r = "\<lparr>stop_reason = ''tool_use'',
                       content = [TextBlock ''I want to search'',
                         ToolUseBlock ''call_1'' ''search_course_content''
                           [(''query'', ''test'')]]\<rparr>"
  let ?self = "AIGenerator_init scripted_client ''claude-test''"
  let ?ts = "Some [\<lparr>td_name = ''t'', td_description = [], td_input_schema = []\<rparr>]"
  let ?G = "generate_response ?self ''q'' None ?ts None (fresh [Inr ?r] ())"
  from generate_response_without_tool_manager[OF surjective_pairing, of ?self "''q''" None ?ts
      "[Inr ?r]" "()"]
  obtain r where r: "calls (snd ?G) = [Create (initial_api_params ?self ''q'' None ?ts) r]"
    "\<forall>resp. r = Inr resp \<longrightarrow> fst ?G = Inr (extract_text (content resp))"
    by blast
  have "calls (snd ?G) = [Create (initial_api_params ?self ''q'' None ?ts) (Inr ?r)]"
    by (simp add: generate_response_def create_def scripted_client_def AIGenerator_init_def
        fresh_def tool_loop_no_manager Let_def)
  with r(1) have "r = Inr ?r" by simp
  with r(2) show ?thesis by simp
qed

text \<open>
  Claim C6 as stated fails: with no tool definitions but with a tool manager, a first
  completion that requests a tool is dispatched and a second request is issued.
\<close>

theorem no_tools_second_request_counterexample:
  "num_requests (calls (snd (generate_response (AIGenerator_init scripted_client ''claude-test'')
      ''q'' None None (Some (const_tool_manager ''r''))
      (fresh [Inr (make_tool_use_response ''search_course_content'' [(''query'', ''test'')]
                ''call_1''),
              Inr (make_text_response ''Final answer'')] ())))) = 2
   \<and> fst (generate_response (AIGenerator_init scripted_client ''claude-test'')
      ''q'' None None (Some (const_tool_manager ''r''))
      (fresh [Inr (make_tool_use_response ''search_course_content'' [(''query'', ''test'')]
                ''call_1''),
              Inr (make_text_response ''Final answer'')] ())) = Inr ''Final answer''"
  by (simp add: run_simps)

text \<open>
  Claim C7. All LLM requests of one invocation have the same parameters but for the message
  sequence: the model, temperature 0, 800 output tokens at most, the system content of the
  initial request, and, when tool definitions were supplied (a non-empty list), those tool
  definitions with the tool choice \<open>{"type": "auto"}\<close>; with no tool definitions, no
  request carries tools or a tool choice.
\<close>

theorem request_parameters_fixed:
  assumes "generate_response (AIGenerator_init c m) q h ts tm (fresh l t) = (res, s')"
  shows "\<forall>p\<in>set (requests (calls s')).
      frame p = frame (initial_api_params (AIGenerator_init c m) q h ts)
    \<and> model p = m \<and> temperature p = 0 \<and> max_tokens p = 800
    \<and> system p = system (initial_api_params (AIGenerator_init c m) q h ts)
    \<and> (\<forall>defs. ts = Some defs \<and> defs \<noteq> [] \<longrightarrow>
          tools p = Some defs \<and> tool_choice p = Some [(''type'', ''auto'')])
    \<and> (ts = None \<or> ts = Some [] \<longrightarrow> tools p = None \<and> tool_choice p = None)"
proof
  fix p assume "p \<in> set (requests (calls s'))"
  with generate_response_frame[OF assms]
  have f: "frame p = frame (initial_api_params (AIGenerator_init c m) q h ts)" by blast
  note ff = frame_fields[OF f]
  show "frame p = frame (initial_api_params (AIGenerator_init c m) q h ts)
    \<and> model p = m \<and> temperature p = 0 \<and> max_tokens p = 800
    \<and> system p = system (initial_api_params (AIGenerator_init c m) q h ts)
    \<and> (\<forall>defs. ts = Some defs \<and> defs \<noteq> [] \<longrightarrow>
          tools p = Some defs \<and> tool_choice p = Some [(''type'', ''auto'')])
    \<and> (ts = None \<or> ts = Some [] \<longrightarrow> tools p = None \<and> tool_choice p = None)"
    using f ff by (auto simp: initial_api_params_fields)
qed

theorem request_parameters_fixed_witness:
  "map temperature (requests (calls (snd (generate_response
      (AIGenerator_init scripted_client ''claude-test'') ''q'' None
      (Some [\<lparr>td_name = ''search_course_content'', td_description = [], td_input_schema = []\<rparr>])
      (Some (const_tool_manager ''r''))
      (fresh [Inr (make_tool_use_response ''search_course_content'' [(''query'', ''test'')]
                ''call_1''),
              Inr (make_text_response ''answer'')] ()))))) = [0, 0]
   \<and> map max_tokens (requests (calls (snd (generate_response
      (AIGenerator_init scripted_client ''claude-test'') ''q'' None
      (Some [\<lparr>td_name = ''search_course_content'', td_description = [], td_input_schema = []\<rparr>])
      (Some (const_tool_manager ''r''))
      (fresh [Inr (make_tool_use_response ''search_course_content'' [(''query'', ''test'')]
                ''call_1''),
              Inr (make_text_response ''answer'')] ()))))) = [800, 800]
   \<and> map system (requests (calls (snd (generate_response
      (AIGenerator_init scripted_client ''claude-test'') ''q'' None
      (Some [\<lparr>td_name = ''search_course_content'', td_description = [], td_input_schema = []\<rparr>])
      (Some (const_tool_manager ''r''))
      (fresh [Inr (make_tool_use_response ''search_course_content'' [(''query'', ''test'')]
                ''call_1''),
              Inr (make_text_response ''answer'')] ()))))) = [SYSTEM_PROMPT, SYSTEM_PROMPT]
   \<and> map tool_choice (requests (calls (snd (generate_response
      (AIGenerator_init scripted_client ''claude-test'') ''q'' None
      (Some [\<lparr>td_name = ''search_course_content'', td_description = [], td_input_schema = []\<rparr>])
      (Some (const_tool_manager ''r''))
      (fresh [Inr (make_tool_use_response ''search_course_content'' [(''query'', ''test'')]
                ''call_1''),
              Inr (make_text_response ''answer'')] ())))))
       = [Some [(''type'', ''auto'')], Some [(''type'', ''auto'')]]"
proof -
  let ?ts = "Some [\<lparr>td_name = ''search_course_content'', td_description = [],
    td_input_schema = []\<rparr>]"
  let ?self = "AIGenerator_init scripted_client ''claude-test''"
  let ?l = "[Inr (make_tool_use_response ''search_course_content'' [(''query'', ''test'')]
                ''call_1''),
              Inr (make_text_response ''answer'')]"
  let ?G = "generate_response ?self ''q'' None ?ts (Some (const_tool_manager ''r''))
      (fresh ?l ())"
  have s: "system (initial_api_params ?self ''q'' None ?ts) = SYSTEM_PROMPT"
    by (simp add: initial_api_params_def)
  have "length (requests (calls (snd ?G))) = 2"
    by (simp add: run_simps)
  then obtain x y where xy: "requests (calls (snd ?G)) = [x, y]"
    by (auto simp: length_Suc_conv numeral_2_eq_2)
  from request_parameters_fixed[OF surjective_pairing, of scripted_client "''claude-test''"
      "''q''" None ?ts "Some (const_tool_manager ''r'')" ?l "()"] s
  have "\<forall>p\<in>set (requests (calls (snd ?G))). temperature p = 0 \<and> max_tokens p = 800
    \<and> system p = SYSTEM_PROMPT \<and> tool_choice p = Some [(''type'', ''auto'')]"
    by simp
  then show ?thesis unfolding xy by simp
qed

text \<open>
  Claim C8. For a name that is not registered, \<open>execute_tool\<close> returns (it does not
  raise, and it leaves the tools' state alone) the string \<open>Tool '<name>' not found\<close>,
  which contains "not found" and names the tool. When a completion requests such a tool
  and the dispatches of the round return, the tool result for that block carries this
  string unchanged as its content, and the results are sent to the LLM in the user message
  of the follow-up request.
\<close>

theorem unknown_tool_reported_to_llm:
  assumes "registry nm = None"
  shows "execute_tool registry nm inp t
      = (Inr (''Tool '' @ [CHR 0x27] @ nm @ [CHR 0x27] @ '' not found''), t)
    \<and> (execute_tool_calls resp (execute_tool registry) s = (Inr trs, s1)
         \<and> (bid, nm, inp') \<in> set (tool_uses (content resp))
         \<and> stop_reason resp = ''tool_use''
       \<longrightarrow> \<lparr>tr_type = ''tool_result'', tool_use_id = bid,
             tr_content = ''Tool '' @ [CHR 0x27] @ nm @ [CHR 0x27] @ '' not found''\<rparr> \<in> set trs
         \<and> (\<exists>r rest. calls (snd (tool_loop self (Some (execute_tool registry)) (k # ks) p
                 resp s))
              = calls s1 @ Create (p\<lparr>messages := messages p @
                   [\<lparr>role = ''assistant'', msg_content = Blocks (content resp)\<rparr>,
                    \<lparr>role = ''user'', msg_content = ToolResults trs\<rparr>]\<rparr>) r # rest))"
proof -
  let ?msg = "''Tool '' @ [CHR 0x27] @ nm @ [CHR 0x27] @ '' not found''"
  have a: "execute_tool registry nm i u = (Inr ?msg, u)" for i u
    using assms by (simp add: execute_tool_def)
  have "\<lparr>tr_type = ''tool_result'', tool_use_id = bid, tr_content = ?msg\<rparr> \<in> set trs
    \<and> (\<exists>r rest. calls (snd (tool_loop self (Some (execute_tool registry)) (k # ks) p resp s))
              = calls s1 @ Create (p\<lparr>messages := messages p @
                   [\<lparr>role = ''assistant'', msg_content = Blocks (content resp)\<rparr>,
                    \<lparr>role = ''user'', msg_content = ToolResults trs\<rparr>]\<rparr>) r # rest)"
    if e: "execute_tool_calls resp (execute_tool registry) s = (Inr trs, s1)"
      and m: "(bid, nm, inp') \<in> set (tool_uses (content resp))"
      and sr: "stop_reason resp = ''tool_use''"
  proof -
    from e have "execute_tool_calls_loop (execute_tool registry) (content resp) [] s
        = (Inr trs, s1)"
      by (simp add: execute_tool_calls_def)
    from exec_loop_result_of_call[OF this m] a
    have i: "\<lparr>tr_type = ''tool_result'', tool_use_id = bid, tr_content = ?msg\<rparr> \<in> set trs"
      by auto
    then have "trs \<noteq> []" by auto
    from tool_loop_round_request[OF sr e this, of self k ks p] i show ?thesis
      by (simp add: next_params_def)
  qed
  with a show ?thesis by blast
qed

theorem unknown_tool_reported_to_llm_witness:
  "execute_tool (Map.empty(''search_course_content'' \<mapsto> const_tool ''Chunk A text''))
      ''nonexistent_tool'' [(''query'', ''x'')] ()
     = (Inr ''Tool 'nonexistent_tool' not found'', ())
   \<and> execute_tool_calls (make_tool_use_response ''nonexistent_tool'' [(''query'', ''x'')] ''call_1'')
        (execute_tool (Map.empty(''search_course_content'' \<mapsto>
           const_tool ''Chunk A text''))) (fresh [] ())
     = (Inr [\<lparr>tr_type = ''tool_result'', tool_use_id = ''call_1'',
               tr_content = ''Tool 'nonexistent_tool' not found''\<rparr>],
        fresh [] () \<lparr>calls := [ExecuteTool ''nonexistent_tool'' [(''query'', ''x'')]
          (Inr ''Tool 'nonexistent_tool' not found'')]\<rparr>)"
proof -
  let ?reg = "Map.empty(''search_course_content'' \<mapsto> const_tool ''Chunk A text'')"
  have n: "?reg ''nonexistent_tool'' = None" by simp
  have "execute_tool_calls (make_tool_use_response ''nonexistent_tool'' [(''query'', ''x'')] ''call_1'')
        (execute_tool ?reg) (fresh [] ())
     = (Inr [\<lparr>tr_type = ''tool_result'', tool_use_id = ''call_1'',
               tr_content = ''Tool 'nonexistent_tool' not found''\<rparr>],
        fresh [] () \<lparr>calls := [ExecuteTool ''nonexistent_tool'' [(''query'', ''x'')]
          (Inr ''Tool 'nonexistent_tool' not found'')]\<rparr>)"
    by (simp add: run_simps execute_tool_def)
  moreover have "execute_tool ?reg ''nonexistent_tool'' [(''query'', ''x'')] ()
      = (Inr ''Tool 'nonexistent_tool' not found'', ())"
    using unknown_tool_reported_to_llm[where registry = ?reg and nm = "''nonexistent_tool''"
      and inp = "[(''query'', ''x'')]" and t = "()", OF n, THEN conjunct1]
    by simp
  ultimately show ?thesis by simp
qed

text \<open>
  Claim C9. With \<open>conversation_history\<close> the empty string, the parameters of the initial
  request, and with them the whole run, are those of a call with no history: the system
  content of every request is exactly \<open>SYSTEM_PROMPT\<close>, with no suffix. (A history
  that is not empty does change the system content.)
\<close>

theorem empty_history_is_no_history:
  "initial_api_params self q (Some []) ts = initial_api_params self q None ts
   \<and> system (initial_api_params self q (Some []) ts) = SYSTEM_PROMPT
   \<and> generate_response self q (Some []) ts tm s = generate_response self q None ts tm s
   \<and> (generate_response self q (Some []) ts tm (fresh l t) = (res, s')
        \<longrightarrow> (\<forall>p\<in>set (requests (calls s')). system p = SYSTEM_PROMPT))
   \<and> (hist \<noteq> [] \<longrightarrow> system (initial_api_params self q (Some hist) ts) \<noteq> SYSTEM_PROMPT)"
proof -
  have a: "initial_api_params self q (Some []) ts = initial_api_params self q None ts"
    by (simp add: initial_api_params_def)
  have b: "system (initial_api_params self q (Some []) ts) = SYSTEM_PROMPT"
    by (simp add: initial_api_params_def Let_def split: option.splits)
  have c: "generate_response self q (Some []) ts tm s = generate_response self q None ts tm s"
    by (simp add: generate_response_def a)
  have d: "\<forall>p\<in>set (requests (calls s')). system p = SYSTEM_PROMPT"
    if "generate_response self q (Some []) ts tm (fresh l t) = (res, s')"
  proof
    fix p assume "p \<in> set (requests (calls s'))"
    with generate_response_frame[OF that]
    have "frame p = frame (initial_api_params self q (Some []) ts)" by blast
    from frame_fields(4)[OF this] b show "system p = SYSTEM_PROMPT" by simp
  qed
  have e: "system (initial_api_params self q (Some hist) ts) \<noteq> SYSTEM_PROMPT" if "hist \<noteq> []"
    using that by (simp add: initial_api_params_def Let_def split: option.splits)
  from a b c d e show ?thesis by blast
qed

theorem empty_history_is_no_history_witness:
  "requests (calls (snd (generate_response (AIGenerator_init scripted_client ''claude-test'')
      ''test'' (Some []) None None (fresh [Inr (make_text_response ''Hello from Claude'')] ()))))
     = [initial_api_params (AIGenerator_init scripted_client ''claude-test'') ''test'' None None]
   \<and> map system (requests (calls (snd (generate_response
      (AIGenerator_init scripted_client ''claude-test'')
      ''test'' (Some []) None None (fresh [Inr (make_text_response ''Hello from Claude'')] ())))))
     = [SYSTEM_PROMPT]"
proof -
  let ?self = "AIGenerator_init scripted_client ''claude-test''"
  let ?G = "generate_response ?self ''test'' (Some []) None None
    (fresh [Inr (make_text_response ''Hello from Claude'')] ())"
  have r: "requests (calls (snd ?G)) = [initial_api_params ?self ''test'' None None]"
    by (simp add: run_simps)
  from empty_history_is_no_history[of ?self "''test''" None None
      "fresh [Inr (make_text_response ''Hello from Claude'')] ()"
      "[Inr (make_text_response ''Hello from Claude'')]" "()" "fst ?G" "snd ?G"]
  have "\<forall>p\<in>set (requests (calls (snd ?G))). system p = SYSTEM_PROMPT"
    by simp
  with r show ?thesis by simp
qed

text \<open>
  Claim C10. If a call of the dispatcher's \<open>execute_tool\<close> raises during a run of
  \<open>generate_response\<close>, that call is the last call of the run (no dispatch and no LLM
  request follows it) and the run ends with that exception: the loop catches nothing.
\<close>

theorem tool_exception_propagates:
  assumes "generate_response self q h ts tm (fresh l t) = (res, s')"
    and "ExecuteTool nm inp (Inl e) \<in> set (calls s')"
  shows "last (calls s') = ExecuteTool nm inp (Inl e) \<and> res = Inl e"
proof -
  let ?p = "initial_api_params self q h ts"
  from generate_response_trace[OF assms(1)] assms(2)
  obtain resp evs lres where t: "calls s' = Create ?p (Inr resp) # evs"
      "loop_trace MAX_TOOL_ROUNDS ?p resp evs lres"
      "res = (case lres of Inl e \<Rightarrow> Inl e
                | Inr (resp', p') \<Rightarrow> Inr (extract_text (content resp')))"
    by (auto simp: fresh_def)
  from assms(2) t(1) have m: "ExecuteTool nm inp (Inl e) \<in> set evs" by simp
  from loop_trace_raised[OF t(2) m] m t(1,3) show ?thesis by auto
qed

theorem tool_exception_propagates_witness:
  "fst (generate_response (AIGenerator_init scripted_client ''claude-test'') ''q'' None None
          (Some (raising_tool_manager ''boom''))
          (fresh [Inr \<lparr>stop_reason = ''tool_use'',
                       content = [ToolUseBlock ''call_1'' ''search'' [(''query'', ''x'')],
                                  ToolUseBlock ''call_2'' ''search'' [(''query'', ''y'')]]\<rparr>,
                  Inr (make_text_response ''never requested'')] ()))
     = Inl (Exn ''boom'')
   \<and> length (calls (snd (generate_response (AIGenerator_init scripted_client ''claude-test'')
          ''q'' None None (Some (raising_tool_manager ''boom''))
          (fresh [Inr \<lparr>stop_reason = ''tool_use'',
                       content = [ToolUseBlock ''call_1'' ''search'' [(''query'', ''x'')],
                                  ToolUseBlock ''call_2'' ''search'' [(''query'', ''y'')]]\<rparr>,
                  Inr (make_text_response ''never requested'')] ())))) = 2"
proof -
  let ?l = "[Inr \<lparr>stop_reason = ''tool_use'',
                       content = [ToolUseBlock ''call_1'' ''search'' [(''query'', ''x'')],
                                  ToolUseBlock ''call_2'' ''search'' [(''query'', ''y'')]]\<rparr>,
                  Inr (make_text_response ''never requested'')]"
  let ?G = "generate_response (AIGenerator_init scripted_client ''claude-test'') ''q'' None None
          (Some (raising_tool_manager ''boom'')) (fresh ?l ())"
  have m: "ExecuteTool ''search'' [(''query'', ''x'')] (Inl (Exn ''boom'')) \<in> set (calls (snd ?G))"
    by (simp add: run_simps raising_tool_manager_def)
  have n: "length (calls (snd ?G)) = 2"
    by (simp add: run_simps raising_tool_manager_def)
  from tool_exception_propagates[OF surjective_pairing m] n show ?thesis by simp
qed


end
